theory Spec2Isabelle
  imports Complex_Main "HOL-Library.Word" "HOL-Library.AList"
begin

unbundle bit_operations_syntax

section \<open>Values of the JavaScript runtime\<close>

text \<open>
  A thrown value, as the \<^verbatim>\<open>catch\<close> block of the handler reads it: only \<^verbatim>\<open>err.code\<close> is
  inspected. The errors of Node's \<^verbatim>\<open>fs\<close> carry a code such as \<^verbatim>\<open>ENOENT\<close> or \<^verbatim>\<open>EACCES\<close>;
  a \<^verbatim>\<open>TypeError\<close> has none.
\<close>

record js_error =
  code :: "string option"

text \<open>
  A property value of a plain object (a Date by its time value), and a plain object as the
  list of its own enumerable properties in insertion order.
\<close>

datatype js_value = JNumber real | JBoolean bool | JDate real

type_synonym js_object = "(string \<times> js_value) list"

type_synonym buffer = "8 word list"

section \<open>The part of Node's fs module that the handler uses\<close>

text \<open>
  \<^verbatim>\<open>fs.Stats\<close>, as far as the handler depends on it. \<^verbatim>\<open>isFile()\<close> and
  \<^verbatim>\<open>isDirectory()\<close> are methods of the prototype and compare the file-type bits of
  \<^verbatim>\<open>mode\<close> with \<^verbatim>\<open>S_IFREG\<close> and \<^verbatim>\<open>S_IFDIR\<close>. The spread \<^verbatim>\<open>{...stats}\<close> copies the
  own enumerable properties of the object; which properties these are depends on the
  version of Node, so they are carried by the Stats value itself.
\<close>

record stats =
  mode :: nat
  ownProperties :: js_object

definition S_IFMT :: nat where
  "S_IFMT = 61440"

definition S_IFREG :: nat where
  "S_IFREG = 32768"

definition S_IFDIR :: nat where
  "S_IFDIR = 16384"

definition isFile :: "stats \<Rightarrow> bool" where
  "isFile st = (mode st AND S_IFMT = S_IFREG)"

definition isDirectory :: "stats \<Rightarrow> bool" where
  "isDirectory st = (mode st AND S_IFMT = S_IFDIR)"

text \<open>
  \<^verbatim>\<open>fs.Dirent\<close>, as \<^verbatim>\<open>readdir(path, { withFileTypes: true })\<close> returns it: a name and
  the entry type reported by the directory listing.
\<close>

datatype dirent_type =
  UV_DIRENT_UNKNOWN | UV_DIRENT_FILE | UV_DIRENT_DIR | UV_DIRENT_LINK
  | UV_DIRENT_FIFO | UV_DIRENT_SOCKET | UV_DIRENT_CHAR | UV_DIRENT_BLOCK

record dirent =
  name :: string
  kind :: dirent_type

definition dirent_isFile :: "dirent \<Rightarrow> bool" where
  "dirent_isFile d = (kind d = UV_DIRENT_FILE)"

definition dirent_isDirectory :: "dirent \<Rightarrow> bool" where
  "dirent_isDirectory d = (kind d = UV_DIRENT_DIR)"

text \<open>
  The file system as the handler sees it: each call of \<^verbatim>\<open>fs/promises\<close> either rejects
  with an error (\<open>Inl\<close>) or resolves with a value (\<open>Inr\<close>). The calls are independent,
  so a path may pass \<^verbatim>\<open>stat\<close> and still fail to be read.
\<close>

record filesystem =
  stat :: "string \<Rightarrow> js_error + stats"
  readFile :: "string \<Rightarrow> js_error + buffer"
  readdir :: "string \<Rightarrow> js_error + string list"
  readdir_withFileTypes :: "string \<Rightarrow> js_error + dirent list"

section \<open>Response types\<close>

record simple_dirent =
  name :: string
  dir :: bool

datatype dir_items = Names "string list" | SimpleDirents "simple_dirent list"

text \<open>
  The union \<^verbatim>\<open>ApiResponse\<close>; the constructor is the \<^verbatim>\<open>type\<close> tag. The payload of
  \<open>StatResponse\<close> is the object \<^verbatim>\<open>SimpleStats\<close>.
\<close>

datatype api_response =
  FileResponse buffer
  | DirResponse dir_items
  | StatResponse js_object
  | ErrorResponse nat "string option"

section \<open>Request and response of the HTTP framework\<close>

text \<open>
  \<^verbatim>\<open>ctx.query.command\<close> is absent, a string, or an array of strings when the parameter
  is repeated in the URL.
\<close>

datatype query_param = QUndefined | QString string | QArray "string list"

record request =
  path :: string
  command :: query_param

datatype body = Envelope api_response | Text string

text \<open>
  What the handler writes to \<^verbatim>\<open>ctx\<close>: the status it assigns, and the body when it assigns
  one (\<open>None\<close>: \<^verbatim>\<open>ctx.body\<close> is left untouched, the response has no body of the handler's).
\<close>

record response =
  status :: nat
  body :: "body option"

text \<open>Truthiness of the query parameter: an absent value and the empty string are falsy.\<close>

fun truthy :: "query_param \<Rightarrow> bool" where
  "truthy QUndefined = False"
| "truthy (QString s) = (s \<noteq> [])"
| "truthy (QArray xs) = True"

fun join_comma :: "string list \<Rightarrow> string" where
  "join_comma [] = []"
| "join_comma [x] = x"
| "join_comma (x # y # ys) = x @ '','' @ join_comma (y # ys)"

text \<open>\<^verbatim>\<open>.toString()\<close>: a TypeError on \<^verbatim>\<open>undefined\<close>, the elements joined by commas for an array.\<close>

fun toString :: "query_param \<Rightarrow> js_error + string" where
  "toString QUndefined = Inl \<lparr>code = None\<rparr>"
| "toString (QString s) = Inr s"
| "toString (QArray xs) = Inr (join_comma xs)"

section \<open>Readers\<close>

definition readIfFile :: "filesystem \<Rightarrow> string \<Rightarrow> stats \<Rightarrow> js_error + api_response option" where
  "readIfFile fs p st =
    (if isFile st then
       (case readFile fs p of
          Inl err \<Rightarrow> Inl err
        | Inr data \<Rightarrow> Inr (Some (FileResponse data)))
     else Inr None)"

text \<open>The \<^verbatim>\<open>forEach\<close> loop of the detailed listing, with \<open>items\<close> as the accumulator.\<close>

fun forEach_dirent :: "dirent list \<Rightarrow> simple_dirent list \<Rightarrow> simple_dirent list" where
  "forEach_dirent [] items = items"
| "forEach_dirent (d # ds) items =
    (let simpleDirent = \<lparr>name = dirent.name d, dir = dirent_isDirectory d\<rparr>
     in forEach_dirent ds
          (if dirent_isFile d \<or> dirent_isDirectory d then items @ [simpleDirent] else items))"

definition readIfDir ::
  "filesystem \<Rightarrow> string \<Rightarrow> stats \<Rightarrow> bool \<Rightarrow> js_error + api_response option" where
  "readIfDir fs p st detailed =
    (if isDirectory st then
       (if \<not> detailed then
          (case readdir fs p of
             Inl err \<Rightarrow> Inl err
           | Inr items \<Rightarrow> Inr (Some (DirResponse (Names items))))
        else
          (case readdir_withFileTypes fs p of
             Inl err \<Rightarrow> Inl err
           | Inr dirents \<Rightarrow>
               Inr (Some (DirResponse (SimpleDirents (forEach_dirent dirents [])))))
       )
     else Inr None)"

definition statIfSupported :: "stats \<Rightarrow> api_response option" where
  "statIfSupported st =
    (if isFile st \<or> isDirectory st then
       (let simpleStats = AList.update ''dir'' (JBoolean (isDirectory st)) (ownProperties st)
        in Some (StatResponse simpleStats))
     else None)"

section \<open>Get request routing\<close>

text \<open>The first half of the \<^verbatim>\<open>try\<close> block: the response object, \<open>None\<close> for \<^verbatim>\<open>null\<close>.\<close>

definition generate_response ::
  "filesystem \<Rightarrow> string \<Rightarrow> query_param \<Rightarrow> js_error + api_response option" where
  "generate_response fs p cmd =
    (case stat fs p of
       Inl err \<Rightarrow> Inl err
     | Inr st \<Rightarrow>
        (if truthy cmd then
           (if cmd = QString ''readfile'' then readIfFile fs p st
            else if cmd = QString ''readdir'' then readIfDir fs p st False
            else if cmd = QString ''readdir-detailed'' then readIfDir fs p st True
            else if cmd = QString ''stat'' then Inr (statIfSupported st)
            else
              (case toString cmd of
                 Inl err \<Rightarrow> Inl err
               | Inr s \<Rightarrow> Inr (Some (ErrorResponse 500 (Some (''Unknown command '' @ s))))))
         else
           (case readIfFile fs p st of
              Inl err \<Rightarrow> Inl err
            | Inr (Some r) \<Rightarrow> Inr (Some r)
            | Inr None \<Rightarrow> readIfDir fs p st False)))"

text \<open>
  The second half: status and body from the response object. An error response without a
  message would assign \<^verbatim>\<open>undefined\<close> to the body; the handler builds no such response.
\<close>

fun send_response :: "api_response option \<Rightarrow> response" where
  "send_response None = \<lparr>status = 500, body = None\<rparr>"
| "send_response (Some (ErrorResponse c message)) = \<lparr>status = c, body = map_option Text message\<rparr>"
| "send_response (Some r) = \<lparr>status = 200, body = Some (Envelope r)\<rparr>"

definition try_block :: "filesystem \<Rightarrow> string \<Rightarrow> query_param \<Rightarrow> js_error + response" where
  "try_block fs p cmd =
    (case generate_response fs p cmd of
       Inl err \<Rightarrow> Inl err
     | Inr r \<Rightarrow> Inr (send_response r))"

definition catch_block :: "js_error \<Rightarrow> response" where
  "catch_block err =
    (if code err = Some ''ENOENT'' then \<lparr>status = 404, body = None\<rparr>
     else \<lparr>status = 500, body = None\<rparr>)"

text \<open>
  The handler that \<^verbatim>\<open>createRoutes(resolvePath)\<close> registers. The result is \<open>Inl\<close> when an
  error leaves the handler and \<open>Inr\<close> with the response written otherwise. The path
  resolver is a function from strings to strings, as its type says.
\<close>

definition createRoutes ::
  "(string \<Rightarrow> string) \<Rightarrow> filesystem \<Rightarrow> request \<Rightarrow> js_error + response" where
  "createRoutes resolvePath fs ctx =
    (let p = resolvePath (path ctx) in
     case try_block fs p (command ctx) of
       Inl err \<Rightarrow> Inr (catch_block err)
     | Inr r \<Rightarrow> Inr r)"

section \<open>A sample file system\<close>

text \<open>
  A small tree under \<^verbatim>\<open>/srv\<close> on which the theorems below are instantiated: a readable
  file, a file that cannot be read, a file that disappears between \<^verbatim>\<open>stat\<close> and the
  read, two directories (one of them unreadable), a socket, and a path whose \<^verbatim>\<open>stat\<close> is
  refused. The Stats objects have the numeric properties only.
\<close>

definition numeric_stats :: "nat \<Rightarrow> nat \<Rightarrow> nat \<Rightarrow> stats" where
  "numeric_stats i m n =
    \<lparr>mode = m,
     ownProperties =
       [(''dev'', JNumber 2049), (''mode'', JNumber (real m)), (''nlink'', JNumber 1),
        (''uid'', JNumber 1000), (''gid'', JNumber 1000), (''rdev'', JNumber 0),
        (''blksize'', JNumber 4096), (''ino'', JNumber (real i)),
        (''size'', JNumber (real n)), (''blocks'', JNumber 8),
        (''atimeMs'', JNumber 1700000000000), (''mtimeMs'', JNumber 1700000000000),
        (''ctimeMs'', JNumber 1700000000000), (''birthtimeMs'', JNumber 1700000000000)]\<rparr>"

definition regular_stats :: stats where
  "regular_stats = numeric_stats 131 33188 2"

definition directory_stats :: stats where
  "directory_stats = numeric_stats 130 16877 4096"

definition socket_stats :: stats where
  "socket_stats = numeric_stats 140 49645 0"

definition demo_resolve :: "string \<Rightarrow> string" where
  "demo_resolve p = ''/srv'' @ p"

definition demo_fs :: filesystem where
  "demo_fs = \<lparr>
     stat = (\<lambda>p.
       if p = ''/srv/a.txt'' \<or> p = ''/srv/secret.txt'' \<or> p = ''/srv/gone.txt'' then Inr regular_stats
       else if p = ''/srv/docs'' \<or> p = ''/srv/private'' then Inr directory_stats
       else if p = ''/srv/sock'' then Inr socket_stats
       else if p = ''/srv/locked'' then Inl \<lparr>code = Some ''EACCES''\<rparr>
       else Inl \<lparr>code = Some ''ENOENT''\<rparr>),
     readFile = (\<lambda>p.
       if p = ''/srv/a.txt'' then Inr [104, 105]
       else if p = ''/srv/secret.txt'' then Inl \<lparr>code = Some ''EACCES''\<rparr>
       else if p = ''/srv/docs'' \<or> p = ''/srv/private'' then Inl \<lparr>code = Some ''EISDIR''\<rparr>
       else Inl \<lparr>code = Some ''ENOENT''\<rparr>),
     readdir = (\<lambda>p.
       if p = ''/srv/docs'' then Inr [''a.txt'', ''link'', ''sub'']
       else if p = ''/srv/private'' then Inl \<lparr>code = Some ''EACCES''\<rparr>
       else if p = ''/srv/a.txt'' \<or> p = ''/srv/secret.txt'' \<or> p = ''/srv/sock''
         then Inl \<lparr>code = Some ''ENOTDIR''\<rparr>
       else Inl \<lparr>code = Some ''ENOENT''\<rparr>),
     readdir_withFileTypes = (\<lambda>p.
       if p = ''/srv/docs'' then
         Inr [\<lparr>dirent.name = ''a.txt'', kind = UV_DIRENT_FILE\<rparr>,
              \<lparr>dirent.name = ''link'', kind = UV_DIRENT_LINK\<rparr>,
              \<lparr>dirent.name = ''sub'', kind = UV_DIRENT_DIR\<rparr>]
       else if p = ''/srv/private'' then Inl \<lparr>code = Some ''EACCES''\<rparr>
       else if p = ''/srv/a.txt'' \<or> p = ''/srv/secret.txt'' \<or> p = ''/srv/sock''
         then Inl \<lparr>code = Some ''ENOTDIR''\<rparr>
       else Inl \<lparr>code = Some ''ENOENT''\<rparr>)\<rparr>"

section \<open>Auxiliary facts\<close>

lemmas handler_defs = createRoutes_def try_block_def generate_response_def catch_block_def
  readIfFile_def readIfDir_def statIfSupported_def

lemmas mode_defs = isFile_def isDirectory_def S_IFMT_def S_IFREG_def S_IFDIR_def

lemmas demo_defs = demo_fs_def demo_resolve_def numeric_stats_def regular_stats_def
  directory_stats_def socket_stats_def

lemma isDirectory_not_isFile: "isDirectory st \<Longrightarrow> \<not> isFile st"
  by (simp add: isFile_def isDirectory_def S_IFREG_def S_IFDIR_def)


lemma readIfFile_Some: "readIfFile fs p st = Inr (Some r) \<Longrightarrow> \<exists>d. r = FileResponse d"
  by (auto simp: readIfFile_def split: if_splits sum.splits)

lemma readIfDir_Some: "readIfDir fs p st b = Inr (Some r) \<Longrightarrow> \<exists>i. r = DirResponse i"
  by (auto simp: readIfDir_def split: if_splits sum.splits)

lemma falsy_response:
  assumes "\<not> truthy cmd" and "generate_response fs p cmd = Inr (Some r)"
  shows "(\<exists>d. r = FileResponse d) \<or> (\<exists>i. r = DirResponse i)"
  using assms
  by (auto simp: generate_response_def split: sum.splits option.splits
        dest: readIfFile_Some readIfDir_Some)

lemma falsy_generate:
  "\<not> truthy cmd \<Longrightarrow> \<not> truthy cmd' \<Longrightarrow>
     generate_response fs p cmd = generate_response fs p cmd'"
  by (simp add: generate_response_def cong: sum.case_cong)

lemma forEach_dirent_filter:
  "forEach_dirent ds items =
     items @ map (\<lambda>d. \<lparr>name = dirent.name d, dir = dirent_isDirectory d\<rparr>)
               (filter (\<lambda>d. dirent_isFile d \<or> dirent_isDirectory d) ds)"
  by (induction ds arbitrary: items) (simp_all add: Let_def)

lemma routes_of_response:
  "generate_response fs (resolvePath (path ctx)) (command ctx) = Inr r \<Longrightarrow>
     createRoutes resolvePath fs ctx = Inr (send_response r)"
  by (simp add: createRoutes_def try_block_def)

lemma routes_of_error:
  "generate_response fs (resolvePath (path ctx)) (command ctx) = Inl err \<Longrightarrow>
     createRoutes resolvePath fs ctx = Inr (catch_block err)"
  by (simp add: createRoutes_def try_block_def)

lemma generate_readfile:
  "stat fs p = Inr st \<Longrightarrow> generate_response fs p (QString ''readfile'') = readIfFile fs p st"
  by (simp add: generate_response_def)

lemma generate_readdir:
  "stat fs p = Inr st \<Longrightarrow> generate_response fs p (QString ''readdir'') = readIfDir fs p st False"
  by (simp add: generate_response_def)

lemma generate_readdir_detailed:
  "stat fs p = Inr st \<Longrightarrow>
     generate_response fs p (QString ''readdir-detailed'') = readIfDir fs p st True"
  by (simp add: generate_response_def)

lemma generate_stat:
  "stat fs p = Inr st \<Longrightarrow> generate_response fs p (QString ''stat'') = Inr (statIfSupported st)"
  by (simp add: generate_response_def)

lemma generate_falsy:
  "stat fs p = Inr st \<Longrightarrow> \<not> truthy cmd \<Longrightarrow>
     generate_response fs p cmd =
       (case readIfFile fs p st of
          Inl err \<Rightarrow> Inl err
        | Inr None \<Rightarrow> readIfDir fs p st False
        | Inr (Some r) \<Rightarrow> Inr (Some r))"
  by (simp add: generate_response_def)

lemma readIfFile_file:
  "isFile st \<Longrightarrow> readIfFile fs p st =
     (case readFile fs p of Inl err \<Rightarrow> Inl err | Inr d \<Rightarrow> Inr (Some (FileResponse d)))"
  by (simp add: readIfFile_def)

lemma readIfFile_other: "\<not> isFile st \<Longrightarrow> readIfFile fs p st = Inr None"
  by (simp add: readIfFile_def)

lemma readIfDir_other: "\<not> isDirectory st \<Longrightarrow> readIfDir fs p st b = Inr None"
  by (simp add: readIfDir_def)

lemma falsy_file:
  assumes "stat fs p = Inr st" and "\<not> truthy cmd" and "isFile st"
  shows "generate_response fs p cmd = readIfFile fs p st"
  using assms
  by (simp add: generate_falsy readIfFile_file split: sum.splits)

lemma falsy_not_file:
  assumes "stat fs p = Inr st" and "\<not> truthy cmd" and "\<not> isFile st"
  shows "generate_response fs p cmd = readIfDir fs p st False"
  using assms by (simp add: generate_falsy readIfFile_other)

lemma truthy_toString: "truthy cmd \<Longrightarrow> \<exists>s. toString cmd = Inr s"
  by (cases cmd) simp_all

lemma readIfFile_Inl:
  "readIfFile fs p st = Inl err \<Longrightarrow> isFile st \<and> readFile fs p = Inl err"
  by (auto simp: readIfFile_def split: if_splits sum.splits)

lemma readIfDir_Inl:
  "readIfDir fs p st b = Inl err \<Longrightarrow>
     isDirectory st \<and> (readdir fs p = Inl err \<or> readdir_withFileTypes fs p = Inl err)"
  by (auto simp: readIfDir_def split: if_splits sum.splits)

lemma readIfFile_None: "readIfFile fs p st = Inr None \<Longrightarrow> \<not> isFile st"
  by (auto simp: readIfFile_def split: if_splits sum.splits)

lemma readIfDir_None: "readIfDir fs p st b = Inr None \<Longrightarrow> \<not> isDirectory st"
  by (auto simp: readIfDir_def split: if_splits sum.splits)

lemma statIfSupported_None: "statIfSupported st = None \<Longrightarrow> \<not> isFile st \<and> \<not> isDirectory st"
  by (auto simp: statIfSupported_def split: if_splits)

lemma statIfSupported_Some: "statIfSupported st = Some r \<Longrightarrow> \<exists>s. r = StatResponse s"
  by (auto simp: statIfSupported_def split: if_splits)

lemma generate_Inl:
  assumes "generate_response fs p cmd = Inl err"
  shows "stat fs p = Inl err
       \<or> (\<exists>st. stat fs p = Inr st
            \<and> (isFile st \<and> readFile fs p = Inl err
               \<or> isDirectory st
                  \<and> (readdir fs p = Inl err \<or> readdir_withFileTypes fs p = Inl err)))"
proof (cases "stat fs p")
  case (Inl e)
  with assms show ?thesis by (simp add: generate_response_def)
next
  case (Inr st)
  show ?thesis
  proof (cases "truthy cmd")
    case True
    then obtain s where "toString cmd = Inr s" using truthy_toString by blast
    with assms Inr True show ?thesis
      by (auto simp: generate_response_def split: if_splits
            dest: readIfFile_Inl readIfDir_Inl)
  next
    case False
    with assms Inr show ?thesis
      by (auto simp: generate_falsy split: sum.splits option.splits
            dest: readIfFile_Inl readIfDir_Inl)
  qed
qed

lemma generate_None:
  assumes "generate_response fs p cmd = Inr None"
  shows "\<exists>st. stat fs p = Inr st
       \<and> (cmd = QString ''readfile'' \<and> \<not> isFile st
          \<or> (cmd = QString ''readdir'' \<or> cmd = QString ''readdir-detailed'') \<and> \<not> isDirectory st
          \<or> (cmd = QString ''stat'' \<or> \<not> truthy cmd) \<and> \<not> isFile st \<and> \<not> isDirectory st)"
proof (cases "stat fs p")
  case (Inl e)
  with assms show ?thesis by (simp add: generate_response_def)
next
  case (Inr st)
  show ?thesis
  proof (cases "truthy cmd")
    case True
    then obtain s where "toString cmd = Inr s" using truthy_toString by blast
    with assms Inr True show ?thesis
      by (auto simp: generate_response_def split: if_splits
            dest: readIfFile_None readIfDir_None statIfSupported_None)
  next
    case False
    with assms Inr show ?thesis
      by (auto simp: generate_falsy split: sum.splits option.splits
            dest: readIfFile_None readIfDir_None)
  qed
qed

lemma generate_Some:
  assumes "generate_response fs p cmd = Inr (Some e)"
  shows "(\<exists>st. stat fs p = Inr st)
       \<and> ((\<exists>d. e = FileResponse d) \<or> (\<exists>i. e = DirResponse i) \<or> (\<exists>s. e = StatResponse s)
          \<or> truthy cmd
             \<and> cmd \<notin> {QString ''readfile'', QString ''readdir'', QString ''readdir-detailed'',
                        QString ''stat''}
             \<and> (\<exists>s. toString cmd = Inr s
                    \<and> e = ErrorResponse 500 (Some (''Unknown command '' @ s))))"
proof (cases "stat fs p")
  case (Inl e)
  with assms show ?thesis by (simp add: generate_response_def)
next
  case (Inr st)
  show ?thesis
  proof (cases "truthy cmd")
    case True
    then obtain s where "toString cmd = Inr s" using truthy_toString by blast
    with assms Inr True show ?thesis
      by (auto simp: generate_response_def split: if_splits
            dest: readIfFile_Some readIfDir_Some statIfSupported_Some)
  next
    case False
    with assms Inr falsy_response [of cmd fs p e] show ?thesis
      by auto
  qed
qed

section \<open>Failure of the initial stat\<close>

text \<open>
  C1. When the \<^verbatim>\<open>stat\<close> of the resolved path fails, the handler assigns no body and the
  status is 404 if the error code is \<^verbatim>\<open>ENOENT\<close> and 500 for every other error, whatever
  the command parameter is (it does not occur in the hypothesis).
\<close>

theorem stat_failure_status:
  assumes "stat fs (resolvePath (path ctx)) = Inl err"
  shows "createRoutes resolvePath fs ctx =
           Inr \<lparr>status = (if code err = Some ''ENOENT'' then 404 else 500), body = None\<rparr>"
  using assms by (simp add: createRoutes_def try_block_def generate_response_def catch_block_def)

theorem stat_failure_status_witness:
  "createRoutes demo_resolve demo_fs \<lparr>path = ''/nope'', command = QString ''readfile''\<rparr> =
     Inr \<lparr>status = 404, body = None\<rparr>
   \<and> createRoutes demo_resolve demo_fs \<lparr>path = ''/nope'', command = QUndefined\<rparr> =
     Inr \<lparr>status = 404, body = None\<rparr>
   \<and> createRoutes demo_resolve demo_fs \<lparr>path = ''/locked'', command = QString ''stat''\<rparr> =
     Inr \<lparr>status = 500, body = None\<rparr>"
proof -
  have missing: "stat demo_fs (demo_resolve ''/nope'') = Inl \<lparr>code = Some ''ENOENT''\<rparr>"
    by (simp add: demo_fs_def demo_resolve_def)
  have locked: "stat demo_fs (demo_resolve ''/locked'') = Inl \<lparr>code = Some ''EACCES''\<rparr>"
    by (simp add: demo_fs_def demo_resolve_def)
  show ?thesis
    using stat_failure_status [of demo_fs demo_resolve
        "\<lparr>path = ''/nope'', command = QString ''readfile''\<rparr>" "\<lparr>code = Some ''ENOENT''\<rparr>"]
      stat_failure_status [of demo_fs demo_resolve
        "\<lparr>path = ''/nope'', command = QUndefined\<rparr>" "\<lparr>code = Some ''ENOENT''\<rparr>"]
      stat_failure_status [of demo_fs demo_resolve
        "\<lparr>path = ''/locked'', command = QString ''stat''\<rparr>" "\<lparr>code = Some ''EACCES''\<rparr>"]
      missing locked
    by simp
qed


section \<open>The request without a command\<close>

text \<open>
  C2. For a path whose \<^verbatim>\<open>stat\<close> succeeds, the request without a command gets the response
  of \<^verbatim>\<open>command=readfile\<close> when the path is a regular file and the response of
  \<^verbatim>\<open>command=readdir\<close> when it is a directory. The file case needs no assumption on
  \<open>isDirectory\<close>: the file read comes first. When the path is neither, the response
  object is \<^verbatim>\<open>null\<close> and the status is 500 without a body.
\<close>

theorem no_command_fallback:
  assumes "stat fs (resolvePath p) = Inr st"
  shows "(isFile st \<longrightarrow>
            createRoutes resolvePath fs \<lparr>path = p, command = QUndefined\<rparr> =
            createRoutes resolvePath fs \<lparr>path = p, command = QString ''readfile''\<rparr>)
       \<and> (isDirectory st \<longrightarrow>
            createRoutes resolvePath fs \<lparr>path = p, command = QUndefined\<rparr> =
            createRoutes resolvePath fs \<lparr>path = p, command = QString ''readdir''\<rparr>)
       \<and> (\<not> isFile st \<and> \<not> isDirectory st \<longrightarrow>
            generate_response fs (resolvePath p) QUndefined = Inr None
          \<and> createRoutes resolvePath fs \<lparr>path = p, command = QUndefined\<rparr> =
              Inr \<lparr>status = 500, body = None\<rparr>)"
proof (intro conjI impI)
  assume "isFile st"
  with assms have "generate_response fs (resolvePath p) QUndefined =
      generate_response fs (resolvePath p) (QString ''readfile'')"
    by (simp add: falsy_file generate_readfile)
  then show "createRoutes resolvePath fs \<lparr>path = p, command = QUndefined\<rparr> =
      createRoutes resolvePath fs \<lparr>path = p, command = QString ''readfile''\<rparr>"
    by (simp add: createRoutes_def try_block_def)
next
  assume "isDirectory st"
  then have "\<not> isFile st" by (rule isDirectory_not_isFile)
  with assms have "generate_response fs (resolvePath p) QUndefined =
      generate_response fs (resolvePath p) (QString ''readdir'')"
    by (simp add: falsy_not_file generate_readdir)
  then show "createRoutes resolvePath fs \<lparr>path = p, command = QUndefined\<rparr> =
      createRoutes resolvePath fs \<lparr>path = p, command = QString ''readdir''\<rparr>"
    by (simp add: createRoutes_def try_block_def)
next
  assume other: "\<not> isFile st \<and> \<not> isDirectory st"
  with assms show null: "generate_response fs (resolvePath p) QUndefined = Inr None"
    by (simp add: falsy_not_file readIfDir_other)
  then show "createRoutes resolvePath fs \<lparr>path = p, command = QUndefined\<rparr> =
      Inr \<lparr>status = 500, body = None\<rparr>"
    by (simp add: createRoutes_def try_block_def)
qed

theorem no_command_fallback_witness:
  "createRoutes demo_resolve demo_fs \<lparr>path = ''/a.txt'', command = QUndefined\<rparr> =
     createRoutes demo_resolve demo_fs \<lparr>path = ''/a.txt'', command = QString ''readfile''\<rparr>
   \<and> createRoutes demo_resolve demo_fs \<lparr>path = ''/a.txt'', command = QUndefined\<rparr> =
     Inr \<lparr>status = 200, body = Some (Envelope (FileResponse [104, 105]))\<rparr>
   \<and> createRoutes demo_resolve demo_fs \<lparr>path = ''/docs'', command = QUndefined\<rparr> =
     createRoutes demo_resolve demo_fs \<lparr>path = ''/docs'', command = QString ''readdir''\<rparr>
   \<and> createRoutes demo_resolve demo_fs \<lparr>path = ''/docs'', command = QUndefined\<rparr> =
     Inr \<lparr>status = 200, body = Some (Envelope (DirResponse (Names [''a.txt'', ''link'', ''sub''])))\<rparr>
   \<and> createRoutes demo_resolve demo_fs \<lparr>path = ''/sock'', command = QUndefined\<rparr> =
     Inr \<lparr>status = 500, body = None\<rparr>"
proof -
  have regular: "stat demo_fs (demo_resolve ''/a.txt'') = Inr regular_stats"
    and directory: "stat demo_fs (demo_resolve ''/docs'') = Inr directory_stats"
    and sock: "stat demo_fs (demo_resolve ''/sock'') = Inr socket_stats"
    by (simp_all add: demo_fs_def demo_resolve_def)
  have kinds: "isFile regular_stats" "isDirectory directory_stats"
    "\<not> isFile socket_stats \<and> \<not> isDirectory socket_stats"
    by (simp_all add: mode_defs demo_defs)
  have outcomes:
    "createRoutes demo_resolve demo_fs \<lparr>path = ''/a.txt'', command = QString ''readfile''\<rparr> =
       Inr \<lparr>status = 200, body = Some (Envelope (FileResponse [104, 105]))\<rparr>"
    "createRoutes demo_resolve demo_fs \<lparr>path = ''/docs'', command = QString ''readdir''\<rparr> =
       Inr \<lparr>status = 200, body = Some (Envelope (DirResponse (Names [''a.txt'', ''link'', ''sub''])))\<rparr>"
    by (simp_all add: handler_defs mode_defs demo_defs)
  show ?thesis
    using no_command_fallback [of demo_fs demo_resolve "''/a.txt''" regular_stats]
      no_command_fallback [of demo_fs demo_resolve "''/docs''" directory_stats]
      no_command_fallback [of demo_fs demo_resolve "''/sock''" socket_stats]
      regular directory sock kinds outcomes
    by simp
qed

section \<open>Unknown commands\<close>

text \<open>
  C3. For an existing path and a command string that is not empty and not one of
  \<^verbatim>\<open>readfile\<close>, \<^verbatim>\<open>readdir\<close>, \<^verbatim>\<open>readdir-detailed\<close>, \<^verbatim>\<open>stat\<close>, the handler answers 500
  with the text \<^verbatim>\<open>Unknown command\<close>, a space and the command. Conversely, a response with
  status 500 and a body only arises this way: the path exists, the command is truthy and
  not one of the four, and the body is that text.
\<close>

theorem unknown_command_message:
  "(stat fs (resolvePath (path ctx)) = Inr st \<and> command ctx = QString s \<and> s \<noteq> ''''
      \<and> s \<notin> {''readfile'', ''readdir'', ''readdir-detailed'', ''stat''}
    \<longrightarrow> createRoutes resolvePath fs ctx =
          Inr \<lparr>status = 500, body = Some (Text (''Unknown command '' @ s))\<rparr>)
   \<and> (\<forall>r message.
        createRoutes resolvePath fs ctx = Inr r \<and> status r = 500 \<and> body r = Some message
        \<longrightarrow> (\<exists>st'. stat fs (resolvePath (path ctx)) = Inr st')
          \<and> truthy (command ctx)
          \<and> command ctx \<notin> {QString ''readfile'', QString ''readdir'',
                             QString ''readdir-detailed'', QString ''stat''}
          \<and> (\<exists>s'. toString (command ctx) = Inr s'
                \<and> message = Text (''Unknown command '' @ s')))"
proof (rule conjI)
  show "stat fs (resolvePath (path ctx)) = Inr st \<and> command ctx = QString s \<and> s \<noteq> ''''
      \<and> s \<notin> {''readfile'', ''readdir'', ''readdir-detailed'', ''stat''}
    \<longrightarrow> createRoutes resolvePath fs ctx =
          Inr \<lparr>status = 500, body = Some (Text (''Unknown command '' @ s))\<rparr>"
  proof (rule impI)
    assume h: "stat fs (resolvePath (path ctx)) = Inr st \<and> command ctx = QString s \<and> s \<noteq> ''''
        \<and> s \<notin> {''readfile'', ''readdir'', ''readdir-detailed'', ''stat''}"
    then have "generate_response fs (resolvePath (path ctx)) (command ctx) =
        Inr (Some (ErrorResponse 500 (Some (''Unknown command '' @ s))))"
      by (simp add: generate_response_def)
    then show "createRoutes resolvePath fs ctx =
        Inr \<lparr>status = 500, body = Some (Text (''Unknown command '' @ s))\<rparr>"
      by (simp add: routes_of_response)
  qed
next
  show "\<forall>r message.
        createRoutes resolvePath fs ctx = Inr r \<and> status r = 500 \<and> body r = Some message
        \<longrightarrow> (\<exists>st'. stat fs (resolvePath (path ctx)) = Inr st')
          \<and> truthy (command ctx)
          \<and> command ctx \<notin> {QString ''readfile'', QString ''readdir'',
                             QString ''readdir-detailed'', QString ''stat''}
          \<and> (\<exists>s'. toString (command ctx) = Inr s'
                \<and> message = Text (''Unknown command '' @ s'))"
  proof (intro allI impI)
    fix r message
    assume h: "createRoutes resolvePath fs ctx = Inr r \<and> status r = 500 \<and> body r = Some message"
    let ?g = "generate_response fs (resolvePath (path ctx)) (command ctx)"
    have "\<exists>e. ?g = Inr (Some e) \<and> r = send_response (Some e)"
    proof (cases ?g)
      case (Inl err)
      then have "createRoutes resolvePath fs ctx = Inr (catch_block err)"
        by (rule routes_of_error)
      with h have "body (catch_block err) = Some message" by simp
      then show ?thesis by (simp add: catch_block_def split: if_splits)
    next
      case (Inr resp)
      then have "createRoutes resolvePath fs ctx = Inr (send_response resp)"
        by (rule routes_of_response)
      with h have r: "r = send_response resp" by simp
      show ?thesis
      proof (cases resp)
        case None
        with h r show ?thesis by simp
      next
        case (Some e)
        with Inr r show ?thesis by simp
      qed
    qed
    then obtain e where e: "?g = Inr (Some e)" and r: "r = send_response (Some e)"
      by blast
    from generate_Some [OF e]
    have st: "\<exists>st'. stat fs (resolvePath (path ctx)) = Inr st'"
      and shape: "(\<exists>d. e = FileResponse d) \<or> (\<exists>i. e = DirResponse i)
          \<or> (\<exists>s. e = StatResponse s)
          \<or> truthy (command ctx)
             \<and> command ctx \<notin> {QString ''readfile'', QString ''readdir'',
                  QString ''readdir-detailed'', QString ''stat''}
             \<and> (\<exists>s. toString (command ctx) = Inr s
                    \<and> e = ErrorResponse 500 (Some (''Unknown command '' @ s)))"
      by blast+
    have "\<not> ((\<exists>d. e = FileResponse d) \<or> (\<exists>i. e = DirResponse i)
        \<or> (\<exists>s. e = StatResponse s))"
    proof
      assume "(\<exists>d. e = FileResponse d) \<or> (\<exists>i. e = DirResponse i) \<or> (\<exists>s. e = StatResponse s)"
      then have "status (send_response (Some e)) = 200" by auto
      with h r show False by simp
    qed
    with shape obtain s' where unknown: "truthy (command ctx)"
        "command ctx \<notin> {QString ''readfile'', QString ''readdir'',
            QString ''readdir-detailed'', QString ''stat''}"
        "toString (command ctx) = Inr s'"
        "e = ErrorResponse 500 (Some (''Unknown command '' @ s'))"
      by blast
    from h r unknown(4) have "message = Text (''Unknown command '' @ s')"
      by simp
    with st unknown(1,2,3)
    show "(\<exists>st'. stat fs (resolvePath (path ctx)) = Inr st')
            \<and> truthy (command ctx)
            \<and> command ctx \<notin> {QString ''readfile'', QString ''readdir'',
                               QString ''readdir-detailed'', QString ''stat''}
            \<and> (\<exists>s'. toString (command ctx) = Inr s'
                  \<and> message = Text (''Unknown command '' @ s'))"
      by (intro conjI exI [of _ s']) simp_all
  qed
qed

theorem unknown_command_message_witness:
  "createRoutes demo_resolve demo_fs \<lparr>path = ''/a.txt'', command = QString ''bogus''\<rparr> =
     Inr \<lparr>status = 500, body = Some (Text ''Unknown command bogus'')\<rparr>
   \<and> truthy (QString ''bogus'')
   \<and> toString (QString ''bogus'') = Inr ''bogus''"
proof -
  let ?ctx = "\<lparr>path = ''/a.txt'', command = QString ''bogus''\<rparr>"
  note inst = unknown_command_message [of demo_fs demo_resolve ?ctx regular_stats "''bogus''"]
  have regular: "stat demo_fs (demo_resolve (path ?ctx)) = Inr regular_stats"
    by (simp add: demo_fs_def demo_resolve_def)
  have premise: "stat demo_fs (demo_resolve (path ?ctx)) = Inr regular_stats
      \<and> command ?ctx = QString ''bogus'' \<and> ''bogus'' \<noteq> ''''
      \<and> ''bogus'' \<notin> {''readfile'', ''readdir'', ''readdir-detailed'', ''stat''}"
    using regular by simp
  from inst premise
  have r: "createRoutes demo_resolve demo_fs ?ctx =
      Inr \<lparr>status = 500, body = Some (Text (''Unknown command '' @ ''bogus''))\<rparr>"
    by (rule conjunct1 [THEN mp])
  from inst have "\<forall>r message.
        createRoutes demo_resolve demo_fs ?ctx = Inr r \<and> status r = 500 \<and> body r = Some message
        \<longrightarrow> (\<exists>st'. stat demo_fs (demo_resolve (path ?ctx)) = Inr st')
          \<and> truthy (command ?ctx)
          \<and> command ?ctx \<notin> {QString ''readfile'', QString ''readdir'',
                             QString ''readdir-detailed'', QString ''stat''}
          \<and> (\<exists>s'. toString (command ?ctx) = Inr s'
                \<and> message = Text (''Unknown command '' @ s'))"
    by (rule conjunct2)
  then have "createRoutes demo_resolve demo_fs ?ctx =
        Inr \<lparr>status = 500, body = Some (Text (''Unknown command '' @ ''bogus''))\<rparr>
      \<and> status \<lparr>status = 500, body = Some (Text (''Unknown command '' @ ''bogus''))\<rparr> = 500
      \<and> body \<lparr>status = 500, body = Some (Text (''Unknown command '' @ ''bogus''))\<rparr> =
          Some (Text (''Unknown command '' @ ''bogus''))
      \<longrightarrow> truthy (command ?ctx)"
    by blast
  with r have "truthy (command ?ctx)" by simp
  with r show ?thesis by simp
qed

text \<open>
  The empty string is a command string outside the four, and it does not lead to the
  \<^verbatim>\<open>Unknown command\<close> response: on a readable file it returns the file.
\<close>

theorem unknown_command_message_counterexample:
  "stat demo_fs (demo_resolve ''/a.txt'') = Inr regular_stats
   \<and> '''' \<notin> {''readfile'', ''readdir'', ''readdir-detailed'', ''stat''}
   \<and> createRoutes demo_resolve demo_fs \<lparr>path = ''/a.txt'', command = QString ''''\<rparr> =
       Inr \<lparr>status = 200, body = Some (Envelope (FileResponse [104, 105]))\<rparr>
   \<and> createRoutes demo_resolve demo_fs \<lparr>path = ''/a.txt'', command = QString ''''\<rparr> \<noteq>
       Inr \<lparr>status = 500, body = Some (Text (''Unknown command '' @ ''''))\<rparr>"
  by (simp add: handler_defs mode_defs demo_defs)

section \<open>The detailed directory listing\<close>

text \<open>
  C4. For a directory whose listing with file types resolves to \<open>dirents\<close>,
  \<^verbatim>\<open>command=readdir-detailed\<close> answers 200 with a Directory envelope whose items are the
  pairs of name and directory flag of exactly the entries that are a plain file or a plain
  directory, in the order of \<open>dirents\<close>; all other entries are left out.
\<close>

theorem readdir_detailed_command:
  assumes "stat fs (resolvePath (path ctx)) = Inr st"
    and "isDirectory st"
    and "command ctx = QString ''readdir-detailed''"
    and "readdir_withFileTypes fs (resolvePath (path ctx)) = Inr dirents"
  shows "createRoutes resolvePath fs ctx =
           Inr \<lparr>status = 200,
                body = Some (Envelope (DirResponse (SimpleDirents
                  (map (\<lambda>d. \<lparr>name = dirent.name d, dir = dirent_isDirectory d\<rparr>)
                     (filter (\<lambda>d. dirent_isFile d \<or> dirent_isDirectory d) dirents)))))\<rparr>"
proof -
  have "generate_response fs (resolvePath (path ctx)) (command ctx) =
      Inr (Some (DirResponse (SimpleDirents (forEach_dirent dirents []))))"
    using assms by (simp add: generate_readdir_detailed readIfDir_def)
  then show ?thesis
    by (simp add: routes_of_response forEach_dirent_filter)
qed

theorem readdir_detailed_command_witness:
  "createRoutes demo_resolve demo_fs
     \<lparr>path = ''/docs'', command = QString ''readdir-detailed''\<rparr> =
     Inr \<lparr>status = 200,
          body = Some (Envelope (DirResponse (SimpleDirents
            [\<lparr>name = ''a.txt'', dir = False\<rparr>, \<lparr>name = ''sub'', dir = True\<rparr>])))\<rparr>"
proof -
  have directory: "stat demo_fs (demo_resolve ''/docs'') = Inr directory_stats"
    and listing: "readdir_withFileTypes demo_fs (demo_resolve ''/docs'') =
      Inr [\<lparr>dirent.name = ''a.txt'', kind = UV_DIRENT_FILE\<rparr>,
           \<lparr>dirent.name = ''link'', kind = UV_DIRENT_LINK\<rparr>,
           \<lparr>dirent.name = ''sub'', kind = UV_DIRENT_DIR\<rparr>]"
    by (simp_all add: demo_fs_def demo_resolve_def)
  have kinds: "isDirectory directory_stats"
    by (simp add: mode_defs demo_defs)
  show ?thesis
    using readdir_detailed_command [of demo_fs demo_resolve
        "\<lparr>path = ''/docs'', command = QString ''readdir-detailed''\<rparr>" directory_stats
        "[\<lparr>dirent.name = ''a.txt'', kind = UV_DIRENT_FILE\<rparr>,
          \<lparr>dirent.name = ''link'', kind = UV_DIRENT_LINK\<rparr>,
          \<lparr>dirent.name = ''sub'', kind = UV_DIRENT_DIR\<rparr>]"]
      directory listing kinds
    by (simp add: dirent_isFile_def dirent_isDirectory_def)
qed

text \<open>
  A directory whose listing is refused has no listing to return: the request ends in the
  \<^verbatim>\<open>catch\<close> block with status 500.
\<close>

theorem readdir_detailed_command_counterexample:
  "stat demo_fs (demo_resolve ''/private'') = Inr directory_stats
   \<and> isDirectory directory_stats
   \<and> createRoutes demo_resolve demo_fs
         \<lparr>path = ''/private'', command = QString ''readdir-detailed''\<rparr> =
       Inr \<lparr>status = 500, body = None\<rparr>"
  by (simp add: handler_defs mode_defs demo_defs)

section \<open>The stat command\<close>

text \<open>
  C5. For a path whose \<^verbatim>\<open>stat\<close> succeeds, \<^verbatim>\<open>command=stat\<close> answers 200 with a Stats
  envelope if and only if the path is a regular file or a directory; for every other kind
  of object the response object is \<^verbatim>\<open>null\<close> and the status is 500 without a body.
\<close>

theorem stat_command:
  assumes "stat fs (resolvePath (path ctx)) = Inr st"
    and "command ctx = QString ''stat''"
  shows "((\<exists>simpleStats. createRoutes resolvePath fs ctx =
              Inr \<lparr>status = 200, body = Some (Envelope (StatResponse simpleStats))\<rparr>)
            \<longleftrightarrow> isFile st \<or> isDirectory st)
       \<and> (\<not> (isFile st \<or> isDirectory st) \<longrightarrow>
            generate_response fs (resolvePath (path ctx)) (command ctx) = Inr None
          \<and> createRoutes resolvePath fs ctx = Inr \<lparr>status = 500, body = None\<rparr>)"
proof -
  have "createRoutes resolvePath fs ctx = Inr (send_response (statIfSupported st))"
    using assms by (simp add: routes_of_response generate_stat)
  moreover have "generate_response fs (resolvePath (path ctx)) (command ctx) =
      Inr (statIfSupported st)"
    using assms by (simp add: generate_stat)
  ultimately show ?thesis
    by (auto simp: statIfSupported_def)
qed

theorem stat_command_witness:
  "(\<exists>simpleStats.
      createRoutes demo_resolve demo_fs \<lparr>path = ''/a.txt'', command = QString ''stat''\<rparr> =
        Inr \<lparr>status = 200, body = Some (Envelope (StatResponse simpleStats))\<rparr>)
   \<and> (\<exists>simpleStats.
      createRoutes demo_resolve demo_fs \<lparr>path = ''/docs'', command = QString ''stat''\<rparr> =
        Inr \<lparr>status = 200, body = Some (Envelope (StatResponse simpleStats))\<rparr>)
   \<and> generate_response demo_fs (demo_resolve ''/sock'') (QString ''stat'') = Inr None
   \<and> createRoutes demo_resolve demo_fs \<lparr>path = ''/sock'', command = QString ''stat''\<rparr> =
        Inr \<lparr>status = 500, body = None\<rparr>"
proof -
  have regular: "stat demo_fs (demo_resolve ''/a.txt'') = Inr regular_stats"
    and directory: "stat demo_fs (demo_resolve ''/docs'') = Inr directory_stats"
    and sock: "stat demo_fs (demo_resolve ''/sock'') = Inr socket_stats"
    by (simp_all add: demo_fs_def demo_resolve_def)
  have kinds: "isFile regular_stats" "isDirectory directory_stats"
    "\<not> (isFile socket_stats \<or> isDirectory socket_stats)"
    by (simp_all add: mode_defs demo_defs)
  show ?thesis
    using stat_command [of demo_fs demo_resolve
        "\<lparr>path = ''/a.txt'', command = QString ''stat''\<rparr>" regular_stats]
      stat_command [of demo_fs demo_resolve
        "\<lparr>path = ''/docs'', command = QString ''stat''\<rparr>" directory_stats]
      stat_command [of demo_fs demo_resolve
        "\<lparr>path = ''/sock'', command = QString ''stat''\<rparr>" socket_stats]
      regular directory sock kinds
    by simp
qed

section \<open>The readfile command\<close>

text \<open>
  C6. For a regular file whose read resolves to \<open>contents\<close>, \<^verbatim>\<open>command=readfile\<close>
  answers 200 with a File envelope that holds exactly \<open>contents\<close>; for an existing path
  that is not a regular file the response object is \<^verbatim>\<open>null\<close> and the status is 500
  without a body.
\<close>

theorem readfile_command:
  assumes "stat fs (resolvePath (path ctx)) = Inr st"
    and "command ctx = QString ''readfile''"
  shows "(isFile st \<and> readFile fs (resolvePath (path ctx)) = Inr contents \<longrightarrow>
            createRoutes resolvePath fs ctx =
              Inr \<lparr>status = 200, body = Some (Envelope (FileResponse contents))\<rparr>)
       \<and> (\<not> isFile st \<longrightarrow>
            generate_response fs (resolvePath (path ctx)) (command ctx) = Inr None
          \<and> createRoutes resolvePath fs ctx = Inr \<lparr>status = 500, body = None\<rparr>)"
  using assms
  by (simp add: routes_of_response generate_readfile readIfFile_file readIfFile_other)

theorem readfile_command_witness:
  "createRoutes demo_resolve demo_fs \<lparr>path = ''/a.txt'', command = QString ''readfile''\<rparr> =
     Inr \<lparr>status = 200, body = Some (Envelope (FileResponse [104, 105]))\<rparr>
   \<and> generate_response demo_fs (demo_resolve ''/docs'') (QString ''readfile'') = Inr None
   \<and> createRoutes demo_resolve demo_fs \<lparr>path = ''/docs'', command = QString ''readfile''\<rparr> =
     Inr \<lparr>status = 500, body = None\<rparr>"
proof -
  have regular: "stat demo_fs (demo_resolve ''/a.txt'') = Inr regular_stats"
    and directory: "stat demo_fs (demo_resolve ''/docs'') = Inr directory_stats"
    and contents: "readFile demo_fs (demo_resolve ''/a.txt'') = Inr [104, 105]"
    by (simp_all add: demo_fs_def demo_resolve_def)
  have kinds: "isFile regular_stats" "\<not> isFile directory_stats"
    by (simp_all add: mode_defs demo_defs)
  show ?thesis
    using readfile_command [of demo_fs demo_resolve
        "\<lparr>path = ''/a.txt'', command = QString ''readfile''\<rparr>" regular_stats "[104, 105]"]
      readfile_command [of demo_fs demo_resolve
        "\<lparr>path = ''/docs'', command = QString ''readfile''\<rparr>" directory_stats]
      regular directory contents kinds
    by simp
qed

text \<open>
  A regular file that cannot be read has no contents to return: the request ends in the
  \<^verbatim>\<open>catch\<close> block with status 500.
\<close>

theorem readfile_command_counterexample:
  "stat demo_fs (demo_resolve ''/secret.txt'') = Inr regular_stats
   \<and> isFile regular_stats
   \<and> createRoutes demo_resolve demo_fs \<lparr>path = ''/secret.txt'', command = QString ''readfile''\<rparr> =
       Inr \<lparr>status = 500, body = None\<rparr>"
  by (simp add: handler_defs mode_defs demo_defs)

section \<open>The outcomes of a request\<close>

text \<open>
  C7. Every request ends with one response record: one status and at most one body.
  The outcome is one of five: status 200 with a File, Directory or Stats envelope; status
  404 without a body, when \<^verbatim>\<open>stat\<close> or the read after it reports \<^verbatim>\<open>ENOENT\<close>; status 500
  without a body, when \<^verbatim>\<open>stat\<close> or the read after it fails with another code; status 500
  without a body, when the command does not apply to the kind of the path; status 500 with
  the text of the unknown command.
\<close>

theorem response_classification:
  "\<exists>r. createRoutes resolvePath fs ctx = Inr r
     \<and> (status r = 200
          \<and> (\<exists>e. body r = Some (Envelope e)
                \<and> generate_response fs (resolvePath (path ctx)) (command ctx) = Inr (Some e)
                \<and> ((\<exists>d. e = FileResponse d) \<or> (\<exists>i. e = DirResponse i)
                   \<or> (\<exists>s. e = StatResponse s)))
        \<or> status r = 404 \<and> body r = None
          \<and> (\<exists>err. code err = Some ''ENOENT''
                \<and> (stat fs (resolvePath (path ctx)) = Inl err
                   \<or> (\<exists>st. stat fs (resolvePath (path ctx)) = Inr st
                        \<and> (isFile st \<and> readFile fs (resolvePath (path ctx)) = Inl err
                           \<or> isDirectory st
                              \<and> (readdir fs (resolvePath (path ctx)) = Inl err
                                 \<or> readdir_withFileTypes fs (resolvePath (path ctx)) = Inl err)))))
        \<or> status r = 500 \<and> body r = None
          \<and> (\<exists>err. code err \<noteq> Some ''ENOENT''
                \<and> (stat fs (resolvePath (path ctx)) = Inl err
                   \<or> (\<exists>st. stat fs (resolvePath (path ctx)) = Inr st
                        \<and> (isFile st \<and> readFile fs (resolvePath (path ctx)) = Inl err
                           \<or> isDirectory st
                              \<and> (readdir fs (resolvePath (path ctx)) = Inl err
                                 \<or> readdir_withFileTypes fs (resolvePath (path ctx)) = Inl err)))))
        \<or> status r = 500 \<and> body r = None
          \<and> (\<exists>st. stat fs (resolvePath (path ctx)) = Inr st
                \<and> (command ctx = QString ''readfile'' \<and> \<not> isFile st
                   \<or> (command ctx = QString ''readdir''
                       \<or> command ctx = QString ''readdir-detailed'') \<and> \<not> isDirectory st
                   \<or> (command ctx = QString ''stat'' \<or> \<not> truthy (command ctx))
                      \<and> \<not> isFile st \<and> \<not> isDirectory st))
        \<or> status r = 500
          \<and> (\<exists>st. stat fs (resolvePath (path ctx)) = Inr st)
          \<and> truthy (command ctx)
          \<and> command ctx \<notin> {QString ''readfile'', QString ''readdir'',
                             QString ''readdir-detailed'', QString ''stat''}
          \<and> (\<exists>s. toString (command ctx) = Inr s
                \<and> body r = Some (Text (''Unknown command '' @ s))))"
proof (cases "generate_response fs (resolvePath (path ctx)) (command ctx)")
  case (Inl err)
  then have r: "createRoutes resolvePath fs ctx = Inr (catch_block err)"
    by (rule routes_of_error)
  from Inl have cause: "stat fs (resolvePath (path ctx)) = Inl err
       \<or> (\<exists>st. stat fs (resolvePath (path ctx)) = Inr st
            \<and> (isFile st \<and> readFile fs (resolvePath (path ctx)) = Inl err
               \<or> isDirectory st
                  \<and> (readdir fs (resolvePath (path ctx)) = Inl err
                     \<or> readdir_withFileTypes fs (resolvePath (path ctx)) = Inl err)))"
    by (rule generate_Inl)
  show ?thesis
  proof (cases "code err = Some ''ENOENT''")
    case True
    with r have "createRoutes resolvePath fs ctx = Inr \<lparr>status = 404, body = None\<rparr>"
      by (simp add: catch_block_def)
    moreover from True cause have "\<exists>err. code err = Some ''ENOENT''
         \<and> (stat fs (resolvePath (path ctx)) = Inl err
            \<or> (\<exists>st. stat fs (resolvePath (path ctx)) = Inr st
                 \<and> (isFile st \<and> readFile fs (resolvePath (path ctx)) = Inl err
                    \<or> isDirectory st
                       \<and> (readdir fs (resolvePath (path ctx)) = Inl err
                          \<or> readdir_withFileTypes fs (resolvePath (path ctx)) = Inl err))))"
      by (intro exI [of _ err] conjI)
    ultimately show ?thesis
      apply (intro exI [of _ "\<lparr>status = 404, body = None\<rparr>"] conjI)
       apply assumption
      apply (rule disjI2, rule disjI1)
      apply simp
      done
  next
    case False
    with r have "createRoutes resolvePath fs ctx = Inr \<lparr>status = 500, body = None\<rparr>"
      by (simp add: catch_block_def)
    moreover from False cause have "\<exists>err. code err \<noteq> Some ''ENOENT''
         \<and> (stat fs (resolvePath (path ctx)) = Inl err
            \<or> (\<exists>st. stat fs (resolvePath (path ctx)) = Inr st
                 \<and> (isFile st \<and> readFile fs (resolvePath (path ctx)) = Inl err
                    \<or> isDirectory st
                       \<and> (readdir fs (resolvePath (path ctx)) = Inl err
                          \<or> readdir_withFileTypes fs (resolvePath (path ctx)) = Inl err))))"
      by (intro exI [of _ err] conjI)
    ultimately show ?thesis
      apply (intro exI [of _ "\<lparr>status = 500, body = None\<rparr>"] conjI)
       apply assumption
      apply (rule disjI2, rule disjI2, rule disjI1)
      apply simp
      done
  qed
next
  case (Inr resp)
  then have r: "createRoutes resolvePath fs ctx = Inr (send_response resp)"
    by (rule routes_of_response)
  show ?thesis
  proof (cases resp)
    case None
    with r have "createRoutes resolvePath fs ctx = Inr \<lparr>status = 500, body = None\<rparr>"
      by simp
    moreover from Inr None have "\<exists>st. stat fs (resolvePath (path ctx)) = Inr st
         \<and> (command ctx = QString ''readfile'' \<and> \<not> isFile st
            \<or> (command ctx = QString ''readdir''
                \<or> command ctx = QString ''readdir-detailed'') \<and> \<not> isDirectory st
            \<or> (command ctx = QString ''stat'' \<or> \<not> truthy (command ctx))
               \<and> \<not> isFile st \<and> \<not> isDirectory st)"
      by (simp only: generate_None)
    ultimately show ?thesis
      apply (intro exI [of _ "\<lparr>status = 500, body = None\<rparr>"] conjI)
       apply assumption
      apply (rule disjI2, rule disjI2, rule disjI2, rule disjI1)
      apply simp
      done
  next
    case (Some e)
    with Inr have g: "generate_response fs (resolvePath (path ctx)) (command ctx) = Inr (Some e)"
      by simp
    from generate_Some [OF g]
    have st: "\<exists>st. stat fs (resolvePath (path ctx)) = Inr st"
      and shape: "(\<exists>d. e = FileResponse d) \<or> (\<exists>i. e = DirResponse i) \<or> (\<exists>s. e = StatResponse s)
          \<or> truthy (command ctx)
             \<and> command ctx \<notin> {QString ''readfile'', QString ''readdir'',
                  QString ''readdir-detailed'', QString ''stat''}
             \<and> (\<exists>s. toString (command ctx) = Inr s
                    \<and> e = ErrorResponse 500 (Some (''Unknown command '' @ s)))"
      by blast+
    show ?thesis
    proof (cases "(\<exists>d. e = FileResponse d) \<or> (\<exists>i. e = DirResponse i) \<or> (\<exists>s. e = StatResponse s)")
      case True
      then have "send_response (Some e) = \<lparr>status = 200, body = Some (Envelope e)\<rparr>"
        by auto
      with r Some have "createRoutes resolvePath fs ctx =
          Inr \<lparr>status = 200, body = Some (Envelope e)\<rparr>"
        by simp
      moreover note g True
      ultimately show ?thesis
        apply (intro exI [of _ "\<lparr>status = 200, body = Some (Envelope e)\<rparr>"] conjI)
         apply assumption
        apply (rule disjI1)
        apply simp
        done
    next
      case False
      with shape obtain s where unknown: "truthy (command ctx)"
          "command ctx \<notin> {QString ''readfile'', QString ''readdir'',
              QString ''readdir-detailed'', QString ''stat''}"
          "toString (command ctx) = Inr s"
          "e = ErrorResponse 500 (Some (''Unknown command '' @ s))"
        by blast
      with r Some have "createRoutes resolvePath fs ctx =
          Inr \<lparr>status = 500, body = Some (Text (''Unknown command '' @ s))\<rparr>"
        by simp
      moreover note st unknown(1,2,3)
      ultimately show ?thesis
        apply (intro exI [of _ "\<lparr>status = 500, body = Some (Text (''Unknown command '' @ s))\<rparr>"]
            conjI)
         apply assumption
        apply (rule disjI2, rule disjI2, rule disjI2, rule disjI2)
        apply simp
        done
    qed
  qed
qed

theorem response_classification_witness:
  "createRoutes demo_resolve demo_fs \<lparr>path = ''/a.txt'', command = QString ''readfile''\<rparr> =
     Inr \<lparr>status = 200, body = Some (Envelope (FileResponse [104, 105]))\<rparr>
   \<and> createRoutes demo_resolve demo_fs \<lparr>path = ''/nope'', command = QString ''readfile''\<rparr> =
     Inr \<lparr>status = 404, body = None\<rparr>
   \<and> createRoutes demo_resolve demo_fs \<lparr>path = ''/secret.txt'', command = QString ''readfile''\<rparr> =
     Inr \<lparr>status = 500, body = None\<rparr>
   \<and> createRoutes demo_resolve demo_fs \<lparr>path = ''/docs'', command = QString ''readfile''\<rparr> =
     Inr \<lparr>status = 500, body = None\<rparr>
   \<and> createRoutes demo_resolve demo_fs \<lparr>path = ''/docs'', command = QString ''bogus''\<rparr> =
     Inr \<lparr>status = 500, body = Some (Text ''Unknown command bogus'')\<rparr>"
proof -
  have outcomes:
    "createRoutes demo_resolve demo_fs \<lparr>path = ''/a.txt'', command = QString ''readfile''\<rparr> =
       Inr \<lparr>status = 200, body = Some (Envelope (FileResponse [104, 105]))\<rparr>"
    "createRoutes demo_resolve demo_fs \<lparr>path = ''/nope'', command = QString ''readfile''\<rparr> =
       Inr \<lparr>status = 404, body = None\<rparr>"
    "createRoutes demo_resolve demo_fs \<lparr>path = ''/secret.txt'', command = QString ''readfile''\<rparr> =
       Inr \<lparr>status = 500, body = None\<rparr>"
    "createRoutes demo_resolve demo_fs \<lparr>path = ''/docs'', command = QString ''readfile''\<rparr> =
       Inr \<lparr>status = 500, body = None\<rparr>"
    "createRoutes demo_resolve demo_fs \<lparr>path = ''/docs'', command = QString ''bogus''\<rparr> =
       Inr \<lparr>status = 500, body = Some (Text ''Unknown command bogus'')\<rparr>"
    by (simp_all add: handler_defs mode_defs demo_defs)
  show ?thesis
    using response_classification [of demo_resolve demo_fs
        "\<lparr>path = ''/a.txt'', command = QString ''readfile''\<rparr>"]
      response_classification [of demo_resolve demo_fs
        "\<lparr>path = ''/nope'', command = QString ''readfile''\<rparr>"]
      response_classification [of demo_resolve demo_fs
        "\<lparr>path = ''/secret.txt'', command = QString ''readfile''\<rparr>"]
      response_classification [of demo_resolve demo_fs
        "\<lparr>path = ''/docs'', command = QString ''readfile''\<rparr>"]
      response_classification [of demo_resolve demo_fs
        "\<lparr>path = ''/docs'', command = QString ''bogus''\<rparr>"]
    by (simp only: outcomes simp_thms)
qed

text \<open>
  The read after a successful \<^verbatim>\<open>stat\<close> is a source of status 500 too: a directory
  whose listing is refused, asked for with the applicable and known command \<^verbatim>\<open>readdir\<close>.
\<close>

theorem response_classification_counterexample:
  "stat demo_fs (demo_resolve ''/private'') = Inr directory_stats
   \<and> isDirectory directory_stats
   \<and> createRoutes demo_resolve demo_fs \<lparr>path = ''/private'', command = QString ''readdir''\<rparr> =
       Inr \<lparr>status = 500, body = None\<rparr>"
  by (simp add: handler_defs mode_defs demo_defs)

section \<open>The Stats envelope\<close>

text \<open>
  C8. For a path that is a regular file or a directory, \<^verbatim>\<open>command=stat\<close> answers 200
  with a Stats envelope whose object has every own property of the Stats object, with its
  value, and one more, named \<^verbatim>\<open>dir\<close>, which is true exactly when the path is a
  directory; for a regular file it is false.
\<close>

theorem stats_envelope_dir:
  assumes "stat fs (resolvePath (path ctx)) = Inr st"
    and "isFile st \<or> isDirectory st"
    and "command ctx = QString ''stat''"
  shows "\<exists>simpleStats.
     createRoutes resolvePath fs ctx =
       Inr \<lparr>status = 200, body = Some (Envelope (StatResponse simpleStats))\<rparr>
     \<and> map_of simpleStats ''dir'' = Some (JBoolean (isDirectory st))
     \<and> (isFile st \<longrightarrow> map_of simpleStats ''dir'' = Some (JBoolean False))
     \<and> (\<forall>k. k \<noteq> ''dir'' \<longrightarrow> map_of simpleStats k = map_of (ownProperties st) k)"
proof -
  let ?s = "AList.update ''dir'' (JBoolean (isDirectory st)) (ownProperties st)"
  have "createRoutes resolvePath fs ctx =
      Inr \<lparr>status = 200, body = Some (Envelope (StatResponse ?s))\<rparr>"
    using assms by (simp add: routes_of_response generate_stat statIfSupported_def)
  moreover have "map_of ?s ''dir'' = Some (JBoolean (isDirectory st))"
    by (simp add: update_conv')
  moreover have "isFile st \<longrightarrow> map_of ?s ''dir'' = Some (JBoolean False)"
    using isDirectory_not_isFile [of st] by (auto simp: update_conv')
  moreover have "\<forall>k. k \<noteq> ''dir'' \<longrightarrow> map_of ?s k = map_of (ownProperties st) k"
    by (simp add: update_conv')
  ultimately show ?thesis by blast
qed

theorem stats_envelope_dir_witness:
  "\<exists>simpleStats.
     createRoutes demo_resolve demo_fs \<lparr>path = ''/a.txt'', command = QString ''stat''\<rparr> =
       Inr \<lparr>status = 200, body = Some (Envelope (StatResponse simpleStats))\<rparr>
     \<and> map_of simpleStats ''dir'' = Some (JBoolean False)
     \<and> map_of simpleStats ''size'' = Some (JNumber 2)"
proof -
  have regular: "stat demo_fs (demo_resolve ''/a.txt'') = Inr regular_stats"
    by (simp add: demo_fs_def demo_resolve_def)
  have kinds: "isFile regular_stats" "\<not> isDirectory regular_stats"
    by (simp_all add: mode_defs demo_defs)
  have size: "map_of (ownProperties regular_stats) ''size'' = Some (JNumber 2)"
    by (simp add: regular_stats_def numeric_stats_def)
  from stats_envelope_dir [of demo_fs demo_resolve
      "\<lparr>path = ''/a.txt'', command = QString ''stat''\<rparr>" regular_stats] regular kinds
  obtain simpleStats where
    r: "createRoutes demo_resolve demo_fs \<lparr>path = ''/a.txt'', command = QString ''stat''\<rparr> =
       Inr \<lparr>status = 200, body = Some (Envelope (StatResponse simpleStats))\<rparr>"
    and d: "map_of simpleStats ''dir'' = Some (JBoolean False)"
    and rest: "\<forall>k. k \<noteq> ''dir'' \<longrightarrow>
       map_of simpleStats k = map_of (ownProperties regular_stats) k"
    by auto
  from rest have "map_of simpleStats ''size'' = map_of (ownProperties regular_stats) ''size''"
    by simp
  with size r d show ?thesis by auto
qed

text \<open>
  The object of the envelope of a regular file has no property named \<^verbatim>\<open>isDirectory\<close>:
  the flag is stored under \<^verbatim>\<open>dir\<close>.
\<close>

theorem stats_envelope_dir_counterexample:
  "stat demo_fs (demo_resolve ''/a.txt'') = Inr regular_stats
   \<and> isFile regular_stats
   \<and> createRoutes demo_resolve demo_fs \<lparr>path = ''/a.txt'', command = QString ''stat''\<rparr> =
       Inr \<lparr>status = 200, body = Some (Envelope (StatResponse
         (AList.update ''dir'' (JBoolean False) (ownProperties regular_stats))))\<rparr>
   \<and> map_of (AList.update ''dir'' (JBoolean False) (ownProperties regular_stats))
         ''isDirectory'' = None
   \<and> map_of (AList.update ''dir'' (JBoolean False) (ownProperties regular_stats))
         ''dir'' = Some (JBoolean False)"
  by (simp add: handler_defs mode_defs demo_defs update_conv')

section \<open>Errors of the read step\<close>

text \<open>
  C9. The handler always returns normally. When \<^verbatim>\<open>stat\<close> succeeds and the read that the
  request leads to (the file read, the plain listing or the detailed listing) rejects with
  \<open>err\<close>, the error leaves the \<^verbatim>\<open>try\<close> block, reaches the same \<^verbatim>\<open>catch\<close> block
  as a \<^verbatim>\<open>stat\<close> error and gives 404 for the code \<^verbatim>\<open>ENOENT\<close> and 500 otherwise, without
  a body.
\<close>

theorem read_errors_are_caught:
  "(\<exists>r. createRoutes resolvePath fs ctx = Inr r)
   \<and> (stat fs (resolvePath (path ctx)) = Inr st
       \<and> (isFile st \<and> (command ctx = QString ''readfile'' \<or> \<not> truthy (command ctx))
             \<and> readFile fs (resolvePath (path ctx)) = Inl err
          \<or> isDirectory st \<and> (command ctx = QString ''readdir'' \<or> \<not> truthy (command ctx))
             \<and> readdir fs (resolvePath (path ctx)) = Inl err
          \<or> isDirectory st \<and> command ctx = QString ''readdir-detailed''
             \<and> readdir_withFileTypes fs (resolvePath (path ctx)) = Inl err)
      \<longrightarrow> try_block fs (resolvePath (path ctx)) (command ctx) = Inl err
        \<and> createRoutes resolvePath fs ctx =
            Inr \<lparr>status = (if code err = Some ''ENOENT'' then 404 else 500), body = None\<rparr>)"
proof (intro conjI impI)
  show "\<exists>r. createRoutes resolvePath fs ctx = Inr r"
    by (simp add: createRoutes_def split: sum.splits)
next
  let ?p = "resolvePath (path ctx)"
  assume h: "stat fs ?p = Inr st
       \<and> (isFile st \<and> (command ctx = QString ''readfile'' \<or> \<not> truthy (command ctx))
             \<and> readFile fs ?p = Inl err
          \<or> isDirectory st \<and> (command ctx = QString ''readdir'' \<or> \<not> truthy (command ctx))
             \<and> readdir fs ?p = Inl err
          \<or> isDirectory st \<and> command ctx = QString ''readdir-detailed''
             \<and> readdir_withFileTypes fs ?p = Inl err)"
  then have st: "stat fs ?p = Inr st" by simp
  have thrown: "generate_response fs ?p (command ctx) = Inl err"
  proof -
    from h consider
      (a) "isFile st" "command ctx = QString ''readfile''" "readFile fs ?p = Inl err"
      | (b) "isFile st" "\<not> truthy (command ctx)" "readFile fs ?p = Inl err"
      | (c) "isDirectory st" "command ctx = QString ''readdir''" "readdir fs ?p = Inl err"
      | (d) "isDirectory st" "\<not> truthy (command ctx)" "readdir fs ?p = Inl err"
      | (e) "isDirectory st" "command ctx = QString ''readdir-detailed''"
          "readdir_withFileTypes fs ?p = Inl err"
      by blast
    then show ?thesis
    proof cases
      case a
      with st show ?thesis by (simp add: generate_readfile readIfFile_file)
    next
      case b
      with st show ?thesis by (simp add: falsy_file readIfFile_file)
    next
      case c
      with st show ?thesis by (simp add: generate_readdir readIfDir_def)
    next
      case d
      with st isDirectory_not_isFile [of st] show ?thesis
        by (simp add: falsy_not_file readIfDir_def)
    next
      case e
      with st show ?thesis by (simp add: generate_readdir_detailed readIfDir_def)
    qed
  qed
  then show "try_block fs ?p (command ctx) = Inl err"
    by (simp add: try_block_def)
  from thrown show "createRoutes resolvePath fs ctx =
      Inr \<lparr>status = (if code err = Some ''ENOENT'' then 404 else 500), body = None\<rparr>"
    by (simp add: routes_of_error catch_block_def)
qed

theorem read_errors_are_caught_witness:
  "createRoutes demo_resolve demo_fs \<lparr>path = ''/gone.txt'', command = QString ''readfile''\<rparr> =
     Inr \<lparr>status = 404, body = None\<rparr>
   \<and> createRoutes demo_resolve demo_fs \<lparr>path = ''/secret.txt'', command = QUndefined\<rparr> =
     Inr \<lparr>status = 500, body = None\<rparr>
   \<and> createRoutes demo_resolve demo_fs \<lparr>path = ''/private'', command = QString ''readdir''\<rparr> =
     Inr \<lparr>status = 500, body = None\<rparr>
   \<and> createRoutes demo_resolve demo_fs
       \<lparr>path = ''/private'', command = QString ''readdir-detailed''\<rparr> =
     Inr \<lparr>status = 500, body = None\<rparr>"
proof -
  have stats: "stat demo_fs (demo_resolve ''/gone.txt'') = Inr regular_stats"
    "stat demo_fs (demo_resolve ''/secret.txt'') = Inr regular_stats"
    "stat demo_fs (demo_resolve ''/private'') = Inr directory_stats"
    by (simp_all add: demo_fs_def demo_resolve_def)
  have reads: "readFile demo_fs (demo_resolve ''/gone.txt'') = Inl \<lparr>code = Some ''ENOENT''\<rparr>"
    "readFile demo_fs (demo_resolve ''/secret.txt'') = Inl \<lparr>code = Some ''EACCES''\<rparr>"
    "readdir demo_fs (demo_resolve ''/private'') = Inl \<lparr>code = Some ''EACCES''\<rparr>"
    "readdir_withFileTypes demo_fs (demo_resolve ''/private'') = Inl \<lparr>code = Some ''EACCES''\<rparr>"
    by (simp_all add: demo_fs_def demo_resolve_def)
  have kinds: "isFile regular_stats" "isDirectory directory_stats"
    by (simp_all add: mode_defs demo_defs)
  show ?thesis
    using read_errors_are_caught [of demo_resolve demo_fs
        "\<lparr>path = ''/gone.txt'', command = QString ''readfile''\<rparr>" regular_stats
        "\<lparr>code = Some ''ENOENT''\<rparr>"]
      read_errors_are_caught [of demo_resolve demo_fs
        "\<lparr>path = ''/secret.txt'', command = QUndefined\<rparr>" regular_stats
        "\<lparr>code = Some ''EACCES''\<rparr>"]
      read_errors_are_caught [of demo_resolve demo_fs
        "\<lparr>path = ''/private'', command = QString ''readdir''\<rparr>" directory_stats
        "\<lparr>code = Some ''EACCES''\<rparr>"]
      read_errors_are_caught [of demo_resolve demo_fs
        "\<lparr>path = ''/private'', command = QString ''readdir-detailed''\<rparr>" directory_stats
        "\<lparr>code = Some ''EACCES''\<rparr>"]
      stats reads kinds
    by simp
qed

section \<open>The empty command\<close>

text \<open>
  C10. A request with \<^verbatim>\<open>command\<close> present and equal to the empty string gets the response
  of the same request without the parameter, never the \<^verbatim>\<open>Unknown command\<close> error. It
  takes the fallback: on a regular file whose read succeeds the response is the File
  envelope, on a directory whose listing succeeds the Directory envelope of the names, and
  on a path that is neither the status is 500 without a body.
\<close>

theorem empty_command_is_no_command:
  "createRoutes resolvePath fs \<lparr>path = p, command = QString ''''\<rparr> =
     createRoutes resolvePath fs \<lparr>path = p, command = QUndefined\<rparr>
   \<and> createRoutes resolvePath fs \<lparr>path = p, command = QString ''''\<rparr> \<noteq>
     Inr \<lparr>status = 500, body = Some (Text (''Unknown command '' @ ''''))\<rparr>
   \<and> (\<forall>st contents.
        stat fs (resolvePath p) = Inr st \<and> isFile st
          \<and> readFile fs (resolvePath p) = Inr contents
        \<longrightarrow> createRoutes resolvePath fs \<lparr>path = p, command = QString ''''\<rparr> =
              Inr \<lparr>status = 200, body = Some (Envelope (FileResponse contents))\<rparr>)
   \<and> (\<forall>st names.
        stat fs (resolvePath p) = Inr st \<and> isDirectory st
          \<and> readdir fs (resolvePath p) = Inr names
        \<longrightarrow> createRoutes resolvePath fs \<lparr>path = p, command = QString ''''\<rparr> =
              Inr \<lparr>status = 200, body = Some (Envelope (DirResponse (Names names)))\<rparr>)
   \<and> (\<forall>st.
        stat fs (resolvePath p) = Inr st \<and> \<not> isFile st \<and> \<not> isDirectory st
        \<longrightarrow> createRoutes resolvePath fs \<lparr>path = p, command = QString ''''\<rparr> =
              Inr \<lparr>status = 500, body = None\<rparr>)"
proof (intro conjI allI impI)
  show "createRoutes resolvePath fs \<lparr>path = p, command = QString ''''\<rparr> =
     createRoutes resolvePath fs \<lparr>path = p, command = QUndefined\<rparr>"
    by (simp add: createRoutes_def try_block_def falsy_generate [of "QString ''''" QUndefined])
next
  let ?g = "generate_response fs (resolvePath p) (QString '''')"
  show "createRoutes resolvePath fs \<lparr>path = p, command = QString ''''\<rparr> \<noteq>
     Inr \<lparr>status = 500, body = Some (Text (''Unknown command '' @ ''''))\<rparr>"
  proof (cases ?g)
    case (Inl err)
    then show ?thesis by (simp add: createRoutes_def try_block_def catch_block_def)
  next
    case (Inr r)
    show ?thesis
    proof (cases r)
      case None
      with Inr show ?thesis by (simp add: createRoutes_def try_block_def)
    next
      case (Some e)
      with Inr falsy_response [of "QString ''''" fs "resolvePath p" e]
      show ?thesis by (auto simp: createRoutes_def try_block_def)
    qed
  qed
next
  fix st contents
  assume h: "stat fs (resolvePath p) = Inr st \<and> isFile st
      \<and> readFile fs (resolvePath p) = Inr contents"
  then have "generate_response fs (resolvePath p) (QString '''') =
      Inr (Some (FileResponse contents))"
    by (simp add: falsy_file readIfFile_file)
  then show "createRoutes resolvePath fs \<lparr>path = p, command = QString ''''\<rparr> =
      Inr \<lparr>status = 200, body = Some (Envelope (FileResponse contents))\<rparr>"
    by (simp add: routes_of_response)
next
  fix st names
  assume h: "stat fs (resolvePath p) = Inr st \<and> isDirectory st
      \<and> readdir fs (resolvePath p) = Inr names"
  then have "\<not> isFile st" by (simp add: isDirectory_not_isFile)
  with h have "generate_response fs (resolvePath p) (QString '''') =
      Inr (Some (DirResponse (Names names)))"
    by (simp add: falsy_not_file readIfDir_def)
  then show "createRoutes resolvePath fs \<lparr>path = p, command = QString ''''\<rparr> =
      Inr \<lparr>status = 200, body = Some (Envelope (DirResponse (Names names)))\<rparr>"
    by (simp add: routes_of_response)
next
  fix st
  assume h: "stat fs (resolvePath p) = Inr st \<and> \<not> isFile st \<and> \<not> isDirectory st"
  then have "generate_response fs (resolvePath p) (QString '''') = Inr None"
    by (simp add: falsy_not_file readIfDir_other)
  then show "createRoutes resolvePath fs \<lparr>path = p, command = QString ''''\<rparr> =
      Inr \<lparr>status = 500, body = None\<rparr>"
    by (simp add: routes_of_response)
qed

theorem empty_command_is_no_command_witness:
  "createRoutes demo_resolve demo_fs \<lparr>path = ''/a.txt'', command = QString ''''\<rparr> =
     Inr \<lparr>status = 200, body = Some (Envelope (FileResponse [104, 105]))\<rparr>
   \<and> createRoutes demo_resolve demo_fs \<lparr>path = ''/a.txt'', command = QUndefined\<rparr> =
     Inr \<lparr>status = 200, body = Some (Envelope (FileResponse [104, 105]))\<rparr>
   \<and> createRoutes demo_resolve demo_fs \<lparr>path = ''/docs'', command = QString ''''\<rparr> =
     Inr \<lparr>status = 200, body = Some (Envelope (DirResponse (Names [''a.txt'', ''link'', ''sub''])))\<rparr>
   \<and> createRoutes demo_resolve demo_fs \<lparr>path = ''/sock'', command = QString ''''\<rparr> =
     Inr \<lparr>status = 500, body = None\<rparr>"
proof -
  note on_file = empty_command_is_no_command [of demo_resolve demo_fs "''/a.txt''"]
  note on_directory = empty_command_is_no_command [of demo_resolve demo_fs "''/docs''"]
  note on_socket = empty_command_is_no_command [of demo_resolve demo_fs "''/sock''"]
  have regular: "stat demo_fs (demo_resolve ''/a.txt'') = Inr regular_stats \<and> isFile regular_stats
      \<and> readFile demo_fs (demo_resolve ''/a.txt'') = Inr [104, 105]"
    by (simp add: mode_defs demo_defs)
  have directory: "stat demo_fs (demo_resolve ''/docs'') = Inr directory_stats
      \<and> isDirectory directory_stats
      \<and> readdir demo_fs (demo_resolve ''/docs'') = Inr [''a.txt'', ''link'', ''sub'']"
    by (simp add: mode_defs demo_defs)
  have sock: "stat demo_fs (demo_resolve ''/sock'') = Inr socket_stats
      \<and> \<not> isFile socket_stats \<and> \<not> isDirectory socket_stats"
    by (simp add: mode_defs demo_defs)
  from on_file regular
  have a: "createRoutes demo_resolve demo_fs \<lparr>path = ''/a.txt'', command = QString ''''\<rparr> =
      Inr \<lparr>status = 200, body = Some (Envelope (FileResponse [104, 105]))\<rparr>"
    by blast
  from on_file
  have "createRoutes demo_resolve demo_fs \<lparr>path = ''/a.txt'', command = QString ''''\<rparr> =
      createRoutes demo_resolve demo_fs \<lparr>path = ''/a.txt'', command = QUndefined\<rparr>"
    by (rule conjunct1)
  with a have b: "createRoutes demo_resolve demo_fs \<lparr>path = ''/a.txt'', command = QUndefined\<rparr> =
      Inr \<lparr>status = 200, body = Some (Envelope (FileResponse [104, 105]))\<rparr>"
    by simp
  from on_directory directory
  have c: "createRoutes demo_resolve demo_fs \<lparr>path = ''/docs'', command = QString ''''\<rparr> =
      Inr \<lparr>status = 200,
           body = Some (Envelope (DirResponse (Names [''a.txt'', ''link'', ''sub''])))\<rparr>"
    by blast
  from on_socket sock
  have d: "createRoutes demo_resolve demo_fs \<lparr>path = ''/sock'', command = QString ''''\<rparr> =
      Inr \<lparr>status = 500, body = None\<rparr>"
    by blast
  from a b c d show ?thesis by (intro conjI)
qed

end
